theory Spec2Isabelle
  imports Main
begin

section \<open>User-supplied functions\<close>

text \<open>
  \<^verbatim>\<open>multimethod.ts\<close> receives two kinds of functions from its caller: the dispatch function
  and the method implementations. A call of either returns a value or throws. They are
  modelled as functions of the argument list; what they do to anything else (including
  calls they might make to the multimethod's own \<^verbatim>\<open>method\<close>) is outside this model.
\<close>

datatype ('e, 'v) completion = Normal 'v | Throw 'e

text \<open>
  \<^verbatim>\<open>type Method<Args, Return> = (...args: Args) => Return\<close>. A method is a JavaScript function
  object. Besides its behaviour when called, the model records what kind of function
  object it is, since the kind decides its own properties and its prototype:
  \<^item> an arrow function (as in the README and the tests): own \<^verbatim>\<open>length\<close> and \<^verbatim>\<open>name\<close>;
  \<^item> a \<^verbatim>\<open>function\<close> expression or declaration in strict code: also an own \<^verbatim>\<open>prototype\<close>;
  \<^item> the same in non-strict code: also own \<^verbatim>\<open>arguments\<close> and \<^verbatim>\<open>caller\<close>, read-only and
    \<^verbatim>\<open>null\<close> while the function is not running (as Node has them);
  \<^item> an async function or async arrow function: no own \<^verbatim>\<open>prototype\<close>, and
    \<^verbatim>\<open>AsyncFunction.prototype\<close> between it and \<^verbatim>\<open>Function.prototype\<close>;
  \<^item> a generator or async generator function: an own \<^verbatim>\<open>prototype\<close>, and
    \<^verbatim>\<open>GeneratorFunction.prototype\<close> or \<^verbatim>\<open>AsyncGeneratorFunction.prototype\<close> in between;
  \<^item> a multimethod created by another call of \<^verbatim>\<open>multimethod\<close>: an arrow function to which
    line 60 adds the own property \<^verbatim>\<open>method\<close>.
  Function objects are taken as the defining syntax (or this module) creates them, with no
  property added, removed or redefined afterwards.
\<close>

datatype function_kind =
    ArrowFunction
  | FunctionExpression
  | NonStrictFunction
  | AsyncFunction
  | GeneratorFunction
  | AsyncGeneratorFunction
  | MultimethodFunction

text \<open>
  A multimethod type-checks as a \<^verbatim>\<open>Method\<close> of its own signature, so the function object
  \<^verbatim>\<open>multimethod\<close> of line 54 can itself be passed to its \<^verbatim>\<open>method\<close>. Calling it is the
  invocation modelled below; its own property \<^verbatim>\<open>method\<close> holds the registration function
  of line 60. That function takes its two parameters from whatever argument list it is
  called with: \<open>parameters\<close> gives, for an argument list, the property key that its first
  element converts to and its second element, which is taken to be absent (\<^verbatim>\<open>undefined\<close>)
  or a function object.
\<close>

datatype ('a, 'e, 'r) Method =
    Method (kind: function_kind) (call: "'a \<Rightarrow> ('e, 'r) completion")
  | ThisMultimethod (parameters: "'a \<Rightarrow> string \<times> ('a, 'e, 'r) Method option")

section \<open>The JavaScript object model behind \<^verbatim>\<open>methods\<close>\<close>

text \<open>
  \<^verbatim>\<open>const methods = {}\<close> is an ordinary object whose prototype is \<^verbatim>\<open>Object.prototype\<close>, and
  \<^verbatim>\<open>methods[dispatch]\<close> is a property access along the prototype chain. The built-in
  functions that such an access can reach are named by the object that owns them and the
  property name.
\<close>

datatype builtin =
    ObjectPrototypeFn string
  | FunctionPrototypeFn string
  | AsyncFunctionPrototypeFn string
  | GeneratorFunctionPrototypeFn string
  | AsyncGeneratorFunctionPrototypeFn string

text \<open>
  The values a property read on \<^verbatim>\<open>methods\<close> can produce. \<open>RegistrationFunction\<close> is the
  function \<^verbatim>\<open>multimethod.method\<close> of this multimethod, \<open>OtherRegistrationFunction\<close> that of
  another one.
\<close>

datatype ('a, 'e, 'r) jsval =
    Undefined
  | Null
  | UserFunction "('a, 'e, 'r) Method"
  | BuiltinFunction builtin
  | RegistrationFunction "'a \<Rightarrow> string \<times> ('a, 'e, 'r) Method option"
  | OtherRegistrationFunction
  | ObjectPrototype
  | OrdinaryObject
  | NumberValue
  | StringValue

text \<open>
  A property found on the chain: a data property with its \<^verbatim>\<open>writable\<close> attribute, the
  \<^verbatim>\<open>__proto__\<close> accessor of \<^verbatim>\<open>Object.prototype\<close> (its getter returns the receiver's prototype,
  its setter replaces it), or one of the accessors \<^verbatim>\<open>caller\<close> and \<^verbatim>\<open>arguments\<close> of
  \<^verbatim>\<open>Function.prototype\<close>, whose getter and setter both throw a TypeError.
\<close>

datatype ('a, 'e, 'r) property =
    DataProperty (pvalue: "('a, 'e, 'r) jsval") (writable: bool)
  | ProtoAccessor
  | ThrowTypeErrorAccessor

text \<open>
  Property keys are strings or symbols. The only symbol the module ever uses as a key is
  \<^verbatim>\<open>const defaultDispatch = Symbol("defaultDispatch")\<close>, created by the module and not
  exported.
\<close>

datatype propkey = StringKey string | defaultDispatch

definition Object_prototype_functions :: "string list" where
  "Object_prototype_functions =
     [''constructor'', ''__defineGetter__'', ''__defineSetter__'', ''hasOwnProperty'',
      ''__lookupGetter__'', ''__lookupSetter__'', ''isPrototypeOf'',
      ''propertyIsEnumerable'', ''toString'', ''valueOf'', ''toLocaleString'']"

text \<open>The own properties of \<^verbatim>\<open>Object.prototype\<close>; all its functions are writable.\<close>

fun Object_prototype_own :: "propkey \<Rightarrow> ('a, 'e, 'r) property option" where
  "Object_prototype_own defaultDispatch = None"
| "Object_prototype_own (StringKey s) =
     (if s \<in> set Object_prototype_functions
        then Some (DataProperty (BuiltinFunction (ObjectPrototypeFn s)) True)
      else if s = ''__proto__'' then Some ProtoAccessor
      else None)"

text \<open>
  The own properties of \<^verbatim>\<open>Function.prototype\<close>: writable functions, the read-only
  \<^verbatim>\<open>length\<close> and \<^verbatim>\<open>name\<close>, and the two throwing accessors.
\<close>

fun Function_prototype_own :: "propkey \<Rightarrow> ('a, 'e, 'r) property option" where
  "Function_prototype_own defaultDispatch = None"
| "Function_prototype_own (StringKey s) =
     (if s \<in> set [''apply'', ''bind'', ''call'', ''constructor'', ''toString'']
        then Some (DataProperty (BuiltinFunction (FunctionPrototypeFn s)) True)
      else if s = ''length'' then Some (DataProperty NumberValue False)
      else if s = ''name'' then Some (DataProperty StringValue False)
      else if s \<in> set [''arguments'', ''caller''] then Some ThrowTypeErrorAccessor
      else None)"

text \<open>
  The own string-keyed properties of the prototype that stands between a function object
  and \<^verbatim>\<open>Function.prototype\<close>, for the kinds that have one: \<^verbatim>\<open>AsyncFunction.prototype\<close> has a
  read-only \<^verbatim>\<open>constructor\<close>; \<^verbatim>\<open>GeneratorFunction.prototype\<close> and
  \<^verbatim>\<open>AsyncGeneratorFunction.prototype\<close> have a read-only \<^verbatim>\<open>constructor\<close> and a read-only
  \<^verbatim>\<open>prototype\<close>.
\<close>

fun intermediate_prototype_own ::
  "function_kind \<Rightarrow> propkey \<Rightarrow> ('a, 'e, 'r) property option" where
  "intermediate_prototype_own AsyncFunction (StringKey s) =
     (if s = ''constructor''
        then Some (DataProperty (BuiltinFunction (AsyncFunctionPrototypeFn s)) False)
      else None)"
| "intermediate_prototype_own GeneratorFunction (StringKey s) =
     (if s = ''constructor''
        then Some (DataProperty (BuiltinFunction (GeneratorFunctionPrototypeFn s)) False)
      else if s = ''prototype'' then Some (DataProperty OrdinaryObject False)
      else None)"
| "intermediate_prototype_own AsyncGeneratorFunction (StringKey s) =
     (if s = ''constructor''
        then Some (DataProperty (BuiltinFunction (AsyncGeneratorFunctionPrototypeFn s)) False)
      else if s = ''prototype'' then Some (DataProperty OrdinaryObject False)
      else None)"
| "intermediate_prototype_own k key = None"

text \<open>Which kinds of function object carry an own, writable \<^verbatim>\<open>prototype\<close> property.\<close>

fun has_own_prototype :: "function_kind \<Rightarrow> bool" where
  "has_own_prototype FunctionExpression = True"
| "has_own_prototype NonStrictFunction = True"
| "has_own_prototype GeneratorFunction = True"
| "has_own_prototype AsyncGeneratorFunction = True"
| "has_own_prototype k = False"

text \<open>
  The own properties of a function object: \<^verbatim>\<open>length\<close> and \<^verbatim>\<open>name\<close> are not writable;
  \<^verbatim>\<open>prototype\<close> is writable where it exists; \<^verbatim>\<open>arguments\<close> and \<^verbatim>\<open>caller\<close> of a non-strict
  function are read-only and \<^verbatim>\<open>null\<close>; \<^verbatim>\<open>method\<close> of a multimethod is an ordinary writable
  data property, created by the assignment of line 60, that holds its registration
  function.
\<close>

fun function_own :: "('a, 'e, 'r) Method \<Rightarrow> propkey \<Rightarrow> ('a, 'e, 'r) property option" where
  "function_own f defaultDispatch = None"
| "function_own (Method k c) (StringKey s) =
     (if s = ''length'' then Some (DataProperty NumberValue False)
      else if s = ''name'' then Some (DataProperty StringValue False)
      else if s = ''prototype'' then
        (if has_own_prototype k then Some (DataProperty OrdinaryObject True) else None)
      else if s \<in> set [''arguments'', ''caller''] then
        (if k = NonStrictFunction then Some (DataProperty Null False) else None)
      else if s = ''method'' then
        (if k = MultimethodFunction then Some (DataProperty OtherRegistrationFunction True)
         else None)
      else None)"
| "function_own (ThisMultimethod p) (StringKey s) =
     (if s = ''length'' then Some (DataProperty NumberValue False)
      else if s = ''name'' then Some (DataProperty StringValue False)
      else if s = ''method'' then Some (DataProperty (RegistrationFunction p) True)
      else None)"

text \<open>
  The prototype of \<^verbatim>\<open>methods\<close>: \<^verbatim>\<open>Object.prototype\<close> as the literal \<^verbatim>\<open>{}\<close> creates it, or a
  function object once the \<^verbatim>\<open>__proto__\<close> setter has run.
\<close>

datatype ('a, 'e, 'r) prototype_link = ObjectProto | FunctionProto "('a, 'e, 'r) Method"

text \<open>
  The first property with key \<open>k\<close> on the chain above \<^verbatim>\<open>methods\<close>. Above a function object
  come the intermediate prototype of its kind (if any), \<^verbatim>\<open>Function.prototype\<close> and
  \<^verbatim>\<open>Object.prototype\<close>.
\<close>

fun above_function ::
  "('a, 'e, 'r) Method \<Rightarrow> propkey \<Rightarrow> ('a, 'e, 'r) property option" where
  "above_function (Method k c) key =
     (case intermediate_prototype_own k key of
        Some p \<Rightarrow> Some p
      | None \<Rightarrow>
          (case Function_prototype_own key of
             Some p \<Rightarrow> Some p
           | None \<Rightarrow> Object_prototype_own key))"
| "above_function (ThisMultimethod p) key =
     (case Function_prototype_own key of
        Some p \<Rightarrow> Some p
      | None \<Rightarrow> Object_prototype_own key)"

fun inherited :: "('a, 'e, 'r) prototype_link \<Rightarrow> propkey \<Rightarrow> ('a, 'e, 'r) property option" where
  "inherited ObjectProto k = Object_prototype_own k"
| "inherited (FunctionProto f) k =
     (case function_own f k of
        Some p \<Rightarrow> Some p
      | None \<Rightarrow> above_function f k)"

text \<open>
  \<^verbatim>\<open>type Methods = Record<Dispatch | typeof defaultDispatch, Method>\<close>: the own properties
  of the object and its prototype. Only the module writes own properties; what it writes
  is a method or, when the registration function is reached through an invocation,
  possibly \<^verbatim>\<open>undefined\<close>.
\<close>

record ('a, 'e, 'r) Methods =
  own :: "propkey \<rightharpoonup> ('a, 'e, 'r) jsval"
  prototype :: "('a, 'e, 'r) prototype_link"

text \<open>
  The TypeErrors the runtime throws in the module's own code: calling a value that is not
  a function, assigning to a read-only property in strict mode, and touching a throwing
  accessor.
\<close>

datatype type_error =
    NotAFunction
  | ReadOnlyProperty propkey
  | RestrictedProperty

text \<open>What the registry's caller can see thrown.\<close>

datatype 'e thrown = Error string | TypeError type_error | UserThrown 'e

fun prototype_value :: "('a, 'e, 'r) prototype_link \<Rightarrow> ('a, 'e, 'r) jsval" where
  "prototype_value ObjectProto = ObjectPrototype"
| "prototype_value (FunctionProto f) = UserFunction f"

text \<open>
  \<^verbatim>\<open>methods[k]\<close>: an own property wins; otherwise the first property on the chain decides
  (a data property gives its value, an accessor runs its getter); otherwise \<^verbatim>\<open>undefined\<close>.
\<close>

definition OrdinaryGet ::
  "('a, 'e, 'r) Methods \<Rightarrow> propkey \<Rightarrow> type_error + ('a, 'e, 'r) jsval" where
  "OrdinaryGet ms k =
     (case own ms k of
        Some v \<Rightarrow> Inr v
      | None \<Rightarrow>
          (case inherited (prototype ms) k of
             None \<Rightarrow> Inr Undefined
           | Some (DataProperty v w) \<Rightarrow> Inr v
           | Some ProtoAccessor \<Rightarrow> Inr (prototype_value (prototype ms))
           | Some ThrowTypeErrorAccessor \<Rightarrow> Inl RestrictedProperty))"

text \<open>The value that the assignment \<^verbatim>\<open>methods[k] = method\<close> stores.\<close>

fun stored :: "('a, 'e, 'r) Method option \<Rightarrow> ('a, 'e, 'r) jsval" where
  "stored None = Undefined"
| "stored (Some f) = UserFunction f"

text \<open>
  The setter of \<^verbatim>\<open>__proto__\<close>: a function object becomes the prototype of \<^verbatim>\<open>methods\<close>;
  \<^verbatim>\<open>undefined\<close> is ignored. No own property is created.
\<close>

fun set_prototype ::
  "('a, 'e, 'r) Methods \<Rightarrow> ('a, 'e, 'r) Method option \<Rightarrow> ('a, 'e, 'r) Methods" where
  "set_prototype ms None = ms"
| "set_prototype ms (Some f) = ms\<lparr>prototype := FunctionProto f\<rparr>"

text \<open>
  \<^verbatim>\<open>methods[k] = method\<close> in strict-mode code (the module is an ES module; the compiled file
  starts with \<^verbatim>\<open>"use strict"\<close>). An own property is overwritten. Otherwise the first
  property on the chain decides: none, or a writable data property, lets the assignment
  create an own property; a read-only data property makes it throw a TypeError; the
  \<^verbatim>\<open>__proto__\<close> setter runs; a throwing accessor throws.
\<close>

definition OrdinarySet ::
  "('a, 'e, 'r) Methods \<Rightarrow> propkey \<Rightarrow> ('a, 'e, 'r) Method option
     \<Rightarrow> type_error + ('a, 'e, 'r) Methods" where
  "OrdinarySet ms k method =
     (case own ms k of
        Some g \<Rightarrow> Inr (ms\<lparr>own := (own ms)(k \<mapsto> stored method)\<rparr>)
      | None \<Rightarrow>
          (case inherited (prototype ms) k of
             None \<Rightarrow> Inr (ms\<lparr>own := (own ms)(k \<mapsto> stored method)\<rparr>)
           | Some (DataProperty v w) \<Rightarrow>
               (if w then Inr (ms\<lparr>own := (own ms)(k \<mapsto> stored method)\<rparr>)
                else Inl (ReadOnlyProperty k))
           | Some ProtoAccessor \<Rightarrow> Inr (set_prototype ms method)
           | Some ThrowTypeErrorAccessor \<Rightarrow> Inl RestrictedProperty))"

section \<open>The multimethod\<close>

text \<open>
  What the closure returned by \<^verbatim>\<open>multimethod(dispatchFn, defaultMethod)\<close> holds: the dispatch
  function and the \<^verbatim>\<open>methods\<close> object. The object is private to the closure; it changes
  only through the operations below.
\<close>

record ('a, 'e, 'r) Multimethod =
  dispatchFn :: "'a \<Rightarrow> ('e, string) completion"
  methods :: "('a, 'e, 'r) Methods"

text \<open>
  \<^verbatim>\<open>const methods = {}; ...; if (defaultMethod) { methods[defaultDispatch] = defaultMethod; }\<close>.
  A function object is truthy, so the assignment runs exactly when a default was passed.
  No object on the chain has a property keyed by the module's symbol, so the assignment
  creates an own property.
\<close>

definition multimethod ::
  "('a \<Rightarrow> ('e, string) completion) \<Rightarrow> ('a, 'e, 'r) Method option \<Rightarrow> ('a, 'e, 'r) Multimethod" where
  "multimethod dispatchFn' defaultMethod =
     \<lparr>dispatchFn = dispatchFn',
      methods =
        (case defaultMethod of
           None \<Rightarrow> \<lparr>own = Map.empty, prototype = ObjectProto\<rparr>
         | Some d \<Rightarrow> \<lparr>own = [defaultDispatch \<mapsto> UserFunction d], prototype = ObjectProto\<rparr>)\<rparr>"

text \<open>
  The body of the registration function,
  \<^verbatim>\<open>(dispatch, method) => { methods[dispatch] = method; return multimethod; }\<close>,
  for whatever its second parameter is bound to. The result is the multimethod itself,
  with the table as the assignment left it, or the TypeError the assignment threw.
\<close>

definition registration ::
  "('a, 'e, 'r) Multimethod \<Rightarrow> string \<Rightarrow> ('a, 'e, 'r) Method option
     \<Rightarrow> type_error + ('a, 'e, 'r) Multimethod" where
  "registration mm dispatch method =
     (case OrdinarySet (methods mm) (StringKey dispatch) method of
        Inl e \<Rightarrow> Inl e
      | Inr ms \<Rightarrow> Inr (mm\<lparr>methods := ms\<rparr>))"

text \<open>
  \<^verbatim>\<open>mm.method(dispatch, method)\<close> as the interface types it: the second argument is a
  \<^verbatim>\<open>Method\<close>.
\<close>

definition method_mm ::
  "('a, 'e, 'r) Multimethod \<Rightarrow> string \<Rightarrow> ('a, 'e, 'r) Method \<Rightarrow> type_error + ('a, 'e, 'r) Multimethod" where
  "method_mm mm dispatch m = registration mm dispatch (Some m)"

text \<open>
  A chain \<^verbatim>\<open>mm.method(t1, m1).method(t2, m2)...\<close>: each call is made on the result of the one
  before; an exception ends the chain.
\<close>

fun method_chain ::
  "('a, 'e, 'r) Multimethod \<Rightarrow> (string \<times> ('a, 'e, 'r) Method) list \<Rightarrow> type_error + ('a, 'e, 'r) Multimethod" where
  "method_chain mm [] = Inr mm"
| "method_chain mm ((dispatch, m) # rest) =
     (case method_mm mm dispatch m of
        Inl e \<Rightarrow> Inl e
      | Inr mm' \<Rightarrow> method_chain mm' rest)"

text \<open>\<^verbatim>\<open>x == null\<close>, and the test \<^verbatim>\<open>x !== null && x !== void 0\<close> of \<^verbatim>\<open>??\<close>, negated.\<close>

fun nullish :: "('a, 'e, 'r) jsval \<Rightarrow> bool" where
  "nullish Undefined = True"
| "nullish Null = True"
| "nullish v = False"

text \<open>
  The outcome of an invocation.
  \<^item> A call that reaches a built-in function of the runtime ends as \<open>CallsBuiltin\<close>: the
    built-in is entered with \<^verbatim>\<open>this\<close> undefined and the invocation's arguments, and what it
    returns or throws is the invocation's result.
  \<^item> \<open>CallsItself\<close>: the resolved method is the multimethod itself, so line 58 calls it
    again with the same arguments.
  \<^item> \<open>ReturnedMultimethod\<close>: the resolved method is this multimethod's registration
    function, which returns \<^verbatim>\<open>multimethod\<close>.
  \<^item> \<open>CallsOtherRegistration\<close>: the resolved method is the registration function of another
    multimethod, which assigns in that multimethod's table.
\<close>

datatype ('a, 'e, 'r) outcome =
    Returned 'r
  | Raised "'e thrown"
  | CallsBuiltin builtin 'a
  | CallsItself 'a
  | ReturnedMultimethod
  | CallsOtherRegistration 'a

text \<open>
  \<^verbatim>\<open>method(...args)\<close>, with the multimethod as the call leaves it. Calling a value that is
  not a function throws a TypeError. Only the registration function of this multimethod
  touches its table.
\<close>

fun Call ::
  "('a, 'e, 'r) Multimethod \<Rightarrow> ('a, 'e, 'r) jsval \<Rightarrow> 'a
     \<Rightarrow> ('a, 'e, 'r) outcome \<times> ('a, 'e, 'r) Multimethod" where
  "Call mm (UserFunction (Method k c)) args =
     (case c args of
        Normal r \<Rightarrow> (Returned r, mm)
      | Throw e \<Rightarrow> (Raised (UserThrown e), mm))"
| "Call mm (UserFunction (ThisMultimethod p)) args = (CallsItself args, mm)"
| "Call mm (BuiltinFunction b) args = (CallsBuiltin b args, mm)"
| "Call mm (RegistrationFunction p) args =
     (case registration mm (fst (p args)) (snd (p args)) of
        Inl e \<Rightarrow> (Raised (TypeError e), mm)
      | Inr mm' \<Rightarrow> (ReturnedMultimethod, mm'))"
| "Call mm OtherRegistrationFunction args = (CallsOtherRegistration args, mm)"
| "Call mm v args = (Raised (TypeError NotAFunction), mm)"

text \<open>
  The multimethod called as a function:
  \<^verbatim>\<open>
  const dispatch = dispatchFn(...args);
  const method = methods[dispatch] ?? methods[defaultDispatch];
  if (method == null) throw new Error(`No method defined for dispatch ${dispatch}`);
  return method(...args);
  \<close>
  The second component is the multimethod after the call.
\<close>

definition invoke ::
  "('a, 'e, 'r) Multimethod \<Rightarrow> 'a \<Rightarrow> ('a, 'e, 'r) outcome \<times> ('a, 'e, 'r) Multimethod" where
  "invoke mm args =
     (case dispatchFn mm args of
        Throw e \<Rightarrow> (Raised (UserThrown e), mm)
      | Normal dispatch \<Rightarrow>
          (case OrdinaryGet (methods mm) (StringKey dispatch) of
             Inl e \<Rightarrow> (Raised (TypeError e), mm)
           | Inr specific \<Rightarrow>
               (case (if nullish specific then OrdinaryGet (methods mm) defaultDispatch
                      else Inr specific) of
                  Inl e \<Rightarrow> (Raised (TypeError e), mm)
                | Inr method \<Rightarrow>
                    if nullish method
                      then (Raised (Error (''No method defined for dispatch '' @ dispatch)), mm)
                    else Call mm method args)))"


section \<open>The multimethods of the README and the tests\<close>

text \<open>
  The dispatch function \<^verbatim>\<open>(value: string) => value\<close> of the README's \<^verbatim>\<open>echo\<close> and of the
  tests, the README's default method
  \<^verbatim>\<open>(value: string) => `default method invoked for ${value}`\<close>,
  and its methods \<^verbatim>\<open>(_) => "foo"\<close> and \<^verbatim>\<open>(_) => "bar"\<close>. None of them throws; the type
  of thrown values is taken as \<open>unit\<close>.
\<close>

definition echo_dispatchFn :: "string \<Rightarrow> (unit, string) completion" where
  "echo_dispatchFn v = Normal v"

definition echo_defaultMethod :: "(string, unit, string) Method" where
  "echo_defaultMethod =
     Method ArrowFunction (\<lambda>v. Normal (''default method invoked for '' @ v))"

definition echo_foo :: "(string, unit, string) Method" where
  "echo_foo = Method ArrowFunction (\<lambda>v. Normal ''foo'')"

definition echo_bar :: "(string, unit, string) Method" where
  "echo_bar = Method ArrowFunction (\<lambda>v. Normal ''bar'')"

text \<open>
  Such a multimethod passed to its own \<^verbatim>\<open>method\<close>. Its argument lists have one element, a
  string: called with \<^verbatim>\<open>(v)\<close>, the registration function gets \<^verbatim>\<open>dispatch = v\<close> and
  \<^verbatim>\<open>method = undefined\<close>.
\<close>

definition echo_itself :: "(string, unit, string) Method" where
  "echo_itself = ThisMultimethod (\<lambda>v. (v, None))"

section \<open>Facts about lookup and assignment\<close>

lemma above_function_defaultDispatch: "above_function f defaultDispatch = None"
  by (cases f) simp_all

lemma inherited_defaultDispatch: "inherited p defaultDispatch = None"
  by (cases p) (simp_all add: above_function_defaultDispatch)

lemma OrdinaryGet_defaultDispatch:
  "OrdinaryGet ms defaultDispatch =
     (case own ms defaultDispatch of None \<Rightarrow> Inr Undefined | Some v \<Rightarrow> Inr v)"
  by (simp add: OrdinaryGet_def inherited_defaultDispatch split: option.split)

lemma OrdinaryGet_other_key:
  "k \<noteq> k' \<Longrightarrow> OrdinaryGet (ms\<lparr>own := (own ms)(k' \<mapsto> v)\<rparr>) k = OrdinaryGet ms k"
  by (simp add: OrdinaryGet_def split: option.split property.split)







lemma intermediate_prototype_own_proto_key:
  "intermediate_prototype_own kd (StringKey ''__proto__'') = None"
  by (cases kd) simp_all

lemma above_function_proto_key:
  "above_function f (StringKey ''__proto__'') = Some ProtoAccessor"
  by (cases f)
     (simp_all add: intermediate_prototype_own_proto_key Object_prototype_functions_def)

lemma function_own_proto_key: "function_own f (StringKey ''__proto__'') = None"
  by (cases f) simp_all

lemma inherited_proto_key: "inherited p (StringKey ''__proto__'') = Some ProtoAccessor"
  by (cases p)
     (simp_all add: Object_prototype_functions_def function_own_proto_key
       above_function_proto_key)

lemma registration_default_slot:
  "registration mm t v = Inr mm' \<Longrightarrow>
     own (methods mm') defaultDispatch = own (methods mm) defaultDispatch"
  by (cases v)
     (auto simp: registration_def OrdinarySet_def
       split: sum.splits option.splits property.splits if_splits)

lemma registration_dispatchFn:
  "registration mm t v = Inr mm' \<Longrightarrow> dispatchFn mm' = dispatchFn mm"
  by (auto simp: registration_def split: sum.splits)

lemma method_mm_default_slot:
  "method_mm mm t m = Inr mm' \<Longrightarrow>
     own (methods mm') defaultDispatch = own (methods mm) defaultDispatch"
  by (simp add: method_mm_def registration_default_slot)

lemma method_chain_default_slot:
  "method_chain mm regs = Inr mm' \<Longrightarrow>
     own (methods mm') defaultDispatch = own (methods mm) defaultDispatch"
proof (induction regs arbitrary: mm)
  case Nil
  then show ?case by simp
next
  case (Cons reg regs)
  obtain t m where reg: "reg = (t, m)" by (cases reg)
  from Cons.prems reg obtain mm1 where
    step: "method_mm mm t m = Inr mm1" and rest: "method_chain mm1 regs = Inr mm'"
    by (auto split: sum.splits)
  from Cons.IH [OF rest] method_mm_default_slot [OF step] show ?case by simp
qed

text \<open>
  A call leaves the table alone unless the value called is the registration function of
  this multimethod; and then it still leaves the default slot alone.
\<close>

lemma Call_leaves_table:
  assumes "\<And>p. v \<noteq> RegistrationFunction p"
  shows "snd (Call mm v args) = mm"
  using assms by (cases "(mm, v, args)" rule: Call.cases) (auto split: completion.split)

lemma Call_outcome_same:
  assumes "\<And>p. v \<noteq> RegistrationFunction p"
  shows "fst (Call mm' v args) = fst (Call mm v args)"
  using assms by (cases "(mm, v, args)" rule: Call.cases) (auto split: completion.split)

lemma Call_default_slot:
  "own (methods (snd (Call mm v args))) defaultDispatch = own (methods mm) defaultDispatch"
  by (cases "(mm, v, args)" rule: Call.cases)
     (auto split: completion.split sum.split dest: registration_default_slot)

lemma invoke_default_slot:
  "own (methods (snd (invoke mm args))) defaultDispatch = own (methods mm) defaultDispatch"
  by (simp add: invoke_def Call_default_slot split: completion.split sum.split)

text \<open>
  What an invocation returns depends on the dispatch function and on two reads of the
  table: the one for the dispatch value and the one for the default slot.
\<close>

lemma invoke_reads:
  assumes "dispatchFn mm' = dispatchFn mm" and "dispatchFn mm args = Normal t"
    and "OrdinaryGet (methods mm') (StringKey t) = OrdinaryGet (methods mm) (StringKey t)"
    and "OrdinaryGet (methods mm') defaultDispatch = OrdinaryGet (methods mm) defaultDispatch"
    and "\<And>p. OrdinaryGet (methods mm) (StringKey t) \<noteq> Inr (RegistrationFunction p)"
    and "\<And>p. OrdinaryGet (methods mm) defaultDispatch \<noteq> Inr (RegistrationFunction p)"
  shows "fst (invoke mm' args) = fst (invoke mm args)"
proof -
  have same: "fst (Call mm' v args) = fst (Call mm v args)"
    if "OrdinaryGet (methods mm) (StringKey t) = Inr v
        \<or> OrdinaryGet (methods mm) defaultDispatch = Inr v" for v
    using that assms(5,6) by (intro Call_outcome_same) auto
  show ?thesis
    using assms(1-4) same by (auto simp: invoke_def split: sum.split)
qed

lemma invoke_leaves_table_without_registration:
  assumes "dispatchFn mm args = Normal t"
    and "\<And>p. OrdinaryGet (methods mm) (StringKey t) \<noteq> Inr (RegistrationFunction p)"
    and "\<And>p. OrdinaryGet (methods mm) defaultDispatch \<noteq> Inr (RegistrationFunction p)"
  shows "snd (invoke mm args) = mm"
proof -
  have same: "snd (Call mm v args) = mm"
    if "OrdinaryGet (methods mm) (StringKey t) = Inr v
        \<or> OrdinaryGet (methods mm) defaultDispatch = Inr v" for v
    using that assms(2,3) by (intro Call_leaves_table) auto
  show ?thesis
    using assms(1) same by (auto simp: invoke_def split: sum.split)
qed

section \<open>Where the object behaves as a table\<close>

text \<open>
  As long as the prototype of \<^verbatim>\<open>methods\<close> is \<^verbatim>\<open>Object.prototype\<close> and the dispatch value
  names no property of \<^verbatim>\<open>Object.prototype\<close>, the object is the table the documentation
  describes: a registered method is found and called, a missing one falls back to the
  default method, and without a default the error is thrown.
\<close>

lemma invoke_registered:
  assumes "dispatchFn mm args = Normal t"
    and "own (methods mm) (StringKey t) = Some (UserFunction m)"
  shows "invoke mm args = Call mm (UserFunction m) args"
  using assms by (simp add: invoke_def OrdinaryGet_def)

lemma invoke_default_method:
  assumes "dispatchFn mm args = Normal t" and "own (methods mm) (StringKey t) = None"
    and "inherited (prototype (methods mm)) (StringKey t) = None"
    and "own (methods mm) defaultDispatch = Some (UserFunction d)"
  shows "invoke mm args = Call mm (UserFunction d) args"
  using assms by (simp add: invoke_def OrdinaryGet_def inherited_defaultDispatch)

lemma invoke_no_method:
  assumes "dispatchFn mm args = Normal t" and "own (methods mm) (StringKey t) = None"
    and "inherited (prototype (methods mm)) (StringKey t) = None"
    and "own (methods mm) defaultDispatch = None"
  shows "invoke mm args = (Raised (Error (''No method defined for dispatch '' @ t)), mm)"
  using assms by (simp add: invoke_def OrdinaryGet_def inherited_defaultDispatch)

text \<open>Errors of the caller's functions pass through as they are.\<close>

lemma invoke_dispatch_error:
  assumes "dispatchFn mm args = Throw e"
  shows "invoke mm args = (Raised (UserThrown e), mm)"
  using assms by (simp add: invoke_def)

lemma invoke_method_error:
  assumes "dispatchFn mm args = Normal t"
    and "own (methods mm) (StringKey t) = Some (UserFunction (Method k c))"
    and "c args = Throw e"
  shows "invoke mm args = (Raised (UserThrown e), mm)"
  using assms by (simp add: invoke_registered)

text \<open>
  Registration on a table whose prototype is still \<^verbatim>\<open>Object.prototype\<close>: every dispatch
  value but \<^verbatim>\<open>__proto__\<close> gets an own property; \<^verbatim>\<open>__proto__\<close> replaces the prototype. Either
  way the next invocation with that dispatch value calls the method just registered.
\<close>

lemma method_mm_intact:
  assumes "prototype (methods mm) = ObjectProto" and "t \<noteq> ''__proto__''"
  shows "method_mm mm t m =
           Inr (mm\<lparr>methods :=
                  (methods mm)\<lparr>own := (own (methods mm))(StringKey t \<mapsto> UserFunction m)\<rparr>\<rparr>)"
  using assms
  by (simp add: method_mm_def registration_def OrdinarySet_def split: option.split)

lemma method_mm_proto:
  assumes "own (methods mm) (StringKey ''__proto__'') = None"
  shows "method_mm mm ''__proto__'' m =
           Inr (mm\<lparr>methods := (methods mm)\<lparr>prototype := FunctionProto m\<rparr>\<rparr>)"
  using assms
  by (simp add: method_mm_def registration_def OrdinarySet_def inherited_proto_key)

text \<open>
  Without an own property under \<^verbatim>\<open>__proto__\<close>, the read \<^verbatim>\<open>methods["__proto__"]\<close> yields the
  prototype of \<^verbatim>\<open>methods\<close>, whatever it is.
\<close>

lemma OrdinaryGet_proto:
  assumes "own ms (StringKey ''__proto__'') = None"
  shows "OrdinaryGet ms (StringKey ''__proto__'') = Inr (prototype_value (prototype ms))"
  using assms by (simp add: OrdinaryGet_def inherited_proto_key)

lemma method_mm_then_invoke_intact:
  assumes "prototype (methods mm) = ObjectProto" and "dispatchFn mm args = Normal t"
  shows "\<exists>mm'. method_mm mm t m = Inr mm' \<and> invoke mm' args = Call mm' (UserFunction m) args"
proof (cases "own (methods mm) (StringKey t)")
  case (Some g)
  with assms show ?thesis
    by (simp add: method_mm_def registration_def OrdinarySet_def invoke_def OrdinaryGet_def)
next
  case None
  show ?thesis
  proof (cases "t = ''__proto__''")
    case True
    let ?mm' = "mm\<lparr>methods := (methods mm)\<lparr>prototype := FunctionProto m\<rparr>\<rparr>"
    from None True have reg: "method_mm mm t m = Inr ?mm'"
      by (simp add: method_mm_proto)
    from None True
    have get: "OrdinaryGet (methods ?mm') (StringKey t) = Inr (UserFunction m)"
      by (simp add: OrdinaryGet_proto)
    from assms(2) get have "invoke ?mm' args = Call ?mm' (UserFunction m) args"
      by (simp add: invoke_def)
    with reg show ?thesis by blast
  next
    case False
    with assms None show ?thesis
      by (simp add: method_mm_def registration_def OrdinarySet_def invoke_def OrdinaryGet_def)
  qed
qed

lemma method_mm_isolated_intact:
  assumes "prototype (methods mm) = ObjectProto" and "t1 \<noteq> ''__proto__''" and "t1 \<noteq> t2"
    and "dispatchFn mm args = Normal t2" and "method_mm mm t1 m = Inr mm'"
    and "\<And>p. OrdinaryGet (methods mm) (StringKey t2) \<noteq> Inr (RegistrationFunction p)"
    and "\<And>p. OrdinaryGet (methods mm) defaultDispatch \<noteq> Inr (RegistrationFunction p)"
  shows "fst (invoke mm' args) = fst (invoke mm args)"
proof -
  from assms(1,2,5)
  have mm': "mm' = mm\<lparr>methods :=
                      (methods mm)\<lparr>own := (own (methods mm))(StringKey t1 \<mapsto> UserFunction m)\<rparr>\<rparr>"
    by (simp add: method_mm_intact)
  have specific:
    "OrdinaryGet (methods mm') (StringKey t2) = OrdinaryGet (methods mm) (StringKey t2)"
    using assms(3) by (simp add: mm' OrdinaryGet_other_key)
  have fallback:
    "OrdinaryGet (methods mm') defaultDispatch = OrdinaryGet (methods mm) defaultDispatch"
    by (simp add: mm' OrdinaryGet_other_key)
  have same_fn: "dispatchFn mm' = dispatchFn mm"
    by (simp add: mm')
  from same_fn assms(4) specific fallback assms(6,7) show ?thesis
    by (rule invoke_reads)
qed

section \<open>Dispatch values that name inherited properties\<close>

text \<open>
  C1. A multimethod created without a default method, called with arguments whose
  dispatch value has no registered method, throws the error
  \<^verbatim>\<open>No method defined for dispatch <value>\<close> and does nothing else.

  The code does not do so when the dispatch value names a function of \<^verbatim>\<open>Object.prototype\<close>.
  For the multimethod of the first test (dispatch function \<^verbatim>\<open>(dispatch) => dispatch\<close>, no
  default, no method registered), the call \<^verbatim>\<open>mm("toString")\<close> reads \<^verbatim>\<open>methods["toString"]\<close>,
  finds \<^verbatim>\<open>Object.prototype.toString\<close> on the prototype chain of the empty object and calls
  it: no error is thrown.
\<close>

theorem toString_without_default:
  "invoke (multimethod echo_dispatchFn None :: (string, unit, string) Multimethod) ''toString''
     = (CallsBuiltin (ObjectPrototypeFn ''toString'') ''toString'',
        multimethod echo_dispatchFn None)"
  by (simp add: invoke_def multimethod_def OrdinaryGet_def echo_dispatchFn_def
      Object_prototype_functions_def)

text \<open>
  C2. A multimethod created with a default method, called with arguments whose dispatch
  value has no registered method, returns what the default method returns for those
  arguments.

  The code does not do so when the dispatch value names a function of \<^verbatim>\<open>Object.prototype\<close>.
  For the README's \<^verbatim>\<open>echo\<close> before any method is registered, the default method would
  return \<^verbatim>\<open>default method invoked for toString\<close>; the call \<^verbatim>\<open>echo("toString")\<close> calls
  \<^verbatim>\<open>Object.prototype.toString\<close> instead, since the inherited function is not nullish and
  \<^verbatim>\<open>??\<close> never reaches the default slot.
\<close>

theorem toString_with_default:
  "call echo_defaultMethod ''toString'' = Normal ''default method invoked for toString''
   \<and> invoke (multimethod echo_dispatchFn (Some echo_defaultMethod)) ''toString''
     = (CallsBuiltin (ObjectPrototypeFn ''toString'') ''toString'',
        multimethod echo_dispatchFn (Some echo_defaultMethod))"
  by (simp add: invoke_def multimethod_def OrdinaryGet_def echo_dispatchFn_def
      echo_defaultMethod_def Object_prototype_functions_def)




text \<open>
  C8. An error thrown by the dispatch function or by the resolved method reaches the
  caller unchanged (\<open>invoke_dispatch_error\<close>, \<open>invoke_method_error\<close>), and
  \<^verbatim>\<open>No method defined\<close> is the only failure that originates in the multimethod itself.

  The second half does not hold on the code. For the README's \<^verbatim>\<open>echo\<close>, the call
  \<^verbatim>\<open>echo("__proto__")\<close> reads \<^verbatim>\<open>methods["__proto__"]\<close>, which is the object \<^verbatim>\<open>Object.prototype\<close>;
  it is not nullish, so the default method is skipped, and \<^verbatim>\<open>method(...args)\<close> throws a
  TypeError. Neither the dispatch function nor any method threw it.
\<close>

theorem proto_token_type_error:
  "invoke (multimethod echo_dispatchFn (Some echo_defaultMethod)) ''__proto__''
     = (Raised (TypeError NotAFunction), multimethod echo_dispatchFn (Some echo_defaultMethod))"
  by (simp add: multimethod_def invoke_def OrdinaryGet_def echo_dispatchFn_def
      Object_prototype_functions_def)

section \<open>Registration under \<^verbatim>\<open>__proto__\<close>\<close>

text \<open>
  \<^verbatim>\<open>mm.method("__proto__", f)\<close> runs the setter of \<^verbatim>\<open>Object.prototype.__proto__\<close>: the function
  \<open>f\<close> becomes the prototype of \<^verbatim>\<open>methods\<close>. From then on the object inherits the own
  properties of \<open>f\<close> and those of \<^verbatim>\<open>Function.prototype\<close>, among them the read-only \<^verbatim>\<open>length\<close>
  and \<^verbatim>\<open>name\<close>.
\<close>

text \<open>
  C3. After \<^verbatim>\<open>register(T, I)\<close>, every invocation whose arguments dispatch to \<open>T\<close> returns
  what \<open>I\<close> returns for them; the registration takes effect at once and persists.

  On a table whose prototype is \<^verbatim>\<open>Object.prototype\<close> this holds for every \<open>T\<close>
  (\<open>method_mm_then_invoke_intact\<close>). It fails after a registration under \<^verbatim>\<open>__proto__\<close>:
  \<^verbatim>\<open>mm.method("__proto__", foo)\<close> succeeds, then \<^verbatim>\<open>mm.method("length", bar)\<close> throws a
  TypeError, because the assignment meets the read-only \<^verbatim>\<open>length\<close> of the function \<open>foo\<close>;
  nothing is registered, and \<^verbatim>\<open>mm("length")\<close> tries to call the number \<^verbatim>\<open>foo.length\<close>.
\<close>

theorem register_after_proto_registration:
  "method_mm (multimethod echo_dispatchFn None) ''__proto__'' echo_foo
     = Inr \<lparr>dispatchFn = echo_dispatchFn,
            methods = \<lparr>own = Map.empty, prototype = FunctionProto echo_foo\<rparr>\<rparr>
   \<and> method_mm \<lparr>dispatchFn = echo_dispatchFn,
                methods = \<lparr>own = Map.empty, prototype = FunctionProto echo_foo\<rparr>\<rparr>
        ''length'' echo_bar
     = Inl (ReadOnlyProperty (StringKey ''length''))
   \<and> fst (invoke \<lparr>dispatchFn = echo_dispatchFn,
                   methods = \<lparr>own = Map.empty, prototype = FunctionProto echo_foo\<rparr>\<rparr>
            ''length'')
     = Raised (TypeError NotAFunction)"
  by (simp add: multimethod_def method_mm_def registration_def OrdinarySet_def invoke_def
      OrdinaryGet_def echo_dispatchFn_def echo_foo_def Object_prototype_functions_def)

text \<open>
  C6. \<^verbatim>\<open>method\<close> returns the multimethod itself, so registrations can be chained, and a
  chain of three registrations for three dispatch values leaves all three methods
  registered and dispatchable.

  The chain \<^verbatim>\<open>echo.method("foo", foo).method("__proto__", bar).method("name", foo)\<close> on the
  README's \<^verbatim>\<open>echo\<close> does not: its third call throws a TypeError.
\<close>

theorem chain_through_proto:
  "method_chain (multimethod echo_dispatchFn (Some echo_defaultMethod))
     [(''foo'', echo_foo), (''__proto__'', echo_bar), (''name'', echo_foo)]
     = Inl (ReadOnlyProperty (StringKey ''name''))"
  by (simp add: multimethod_def method_mm_def registration_def OrdinarySet_def
      echo_bar_def Object_prototype_functions_def)

text \<open>
  C9. Registering a method under \<open>T1\<close> does not change the result of any invocation whose
  arguments dispatch to a different \<open>T2\<close>.

  This holds while the prototype is \<^verbatim>\<open>Object.prototype\<close> and \<open>T1\<close> is not \<^verbatim>\<open>__proto__\<close>
  (\<open>method_mm_isolated_intact\<close>). For \<open>T1 = "__proto__"\<close> and \<open>T2 = "length"\<close> it fails on the
  README's \<^verbatim>\<open>echo\<close>: \<^verbatim>\<open>echo("length")\<close> returns the default method's result before
  \<^verbatim>\<open>echo.method("__proto__", foo)\<close> and throws a TypeError after it.
\<close>

theorem proto_registration_changes_length:
  "fst (invoke (multimethod echo_dispatchFn (Some echo_defaultMethod)) ''length'')
     = Returned ''default method invoked for length''
   \<and> method_mm (multimethod echo_dispatchFn (Some echo_defaultMethod)) ''__proto__'' echo_foo
     = Inr \<lparr>dispatchFn = echo_dispatchFn,
            methods = \<lparr>own = [defaultDispatch \<mapsto> UserFunction echo_defaultMethod],
                       prototype = FunctionProto echo_foo\<rparr>\<rparr>
   \<and> fst (invoke \<lparr>dispatchFn = echo_dispatchFn,
                   methods = \<lparr>own = [defaultDispatch \<mapsto> UserFunction echo_defaultMethod],
                              prototype = FunctionProto echo_foo\<rparr>\<rparr>
            ''length'')
     = Raised (TypeError NotAFunction)"
  by (simp add: multimethod_def method_mm_def registration_def OrdinarySet_def invoke_def
      OrdinaryGet_def echo_dispatchFn_def echo_defaultMethod_def echo_foo_def
      Object_prototype_functions_def)

section \<open>Registering a second method under the same dispatch value\<close>





section \<open>The default slot\<close>

text \<open>
  C7. The key of the default slot is never equal to a string dispatch value, and the
  default method is set at most once, at construction: after any chain of registrations
  the slot holds exactly what \<^verbatim>\<open>multimethod\<close> was given (nothing, if no default was passed),
  and the fallback read \<^verbatim>\<open>methods[defaultDispatch]\<close> yields this and nothing else.
\<close>

theorem default_slot_fixed:
  assumes "method_chain (multimethod d dm) regs = Inr mm"
  shows "StringKey t \<noteq> defaultDispatch
       \<and> own (methods mm) defaultDispatch = map_option UserFunction dm
       \<and> OrdinaryGet (methods mm) defaultDispatch =
           (case dm of None \<Rightarrow> Inr Undefined | Some m \<Rightarrow> Inr (UserFunction m))"
proof -
  have "own (methods (multimethod d dm)) defaultDispatch = map_option UserFunction dm"
    by (simp add: multimethod_def split: option.split)
  with method_chain_default_slot [OF assms]
  have slot: "own (methods mm) defaultDispatch = map_option UserFunction dm"
    by simp
  then show ?thesis by (simp add: OrdinaryGet_defaultDispatch split: option.split)
qed

theorem default_slot_fixed_witness:
  "method_chain (multimethod echo_dispatchFn (Some echo_defaultMethod))
      [(''foo'', echo_foo), (''bar'', echo_bar)]
     = Inr \<lparr>dispatchFn = echo_dispatchFn,
            methods = \<lparr>own = [defaultDispatch \<mapsto> UserFunction echo_defaultMethod,
                               StringKey ''foo'' \<mapsto> UserFunction echo_foo,
                               StringKey ''bar'' \<mapsto> UserFunction echo_bar],
                       prototype = ObjectProto\<rparr>\<rparr>
   \<and> StringKey ''foo'' \<noteq> defaultDispatch
   \<and> own (methods \<lparr>dispatchFn = echo_dispatchFn,
            methods = \<lparr>own = [defaultDispatch \<mapsto> UserFunction echo_defaultMethod,
                               StringKey ''foo'' \<mapsto> UserFunction echo_foo,
                               StringKey ''bar'' \<mapsto> UserFunction echo_bar],
                       prototype = ObjectProto\<rparr>\<rparr>) defaultDispatch
     = Some (UserFunction echo_defaultMethod)"
proof -
  have run: "method_chain (multimethod echo_dispatchFn (Some echo_defaultMethod))
      [(''foo'', echo_foo), (''bar'', echo_bar)]
     = Inr \<lparr>dispatchFn = echo_dispatchFn,
            methods = \<lparr>own = [defaultDispatch \<mapsto> UserFunction echo_defaultMethod,
                               StringKey ''foo'' \<mapsto> UserFunction echo_foo,
                               StringKey ''bar'' \<mapsto> UserFunction echo_bar],
                       prototype = ObjectProto\<rparr>\<rparr>"
    by (simp add: multimethod_def method_mm_def registration_def OrdinarySet_def
        Object_prototype_functions_def)
  from default_slot_fixed [OF run, of "''foo''"] run show ?thesis by simp
qed

section \<open>Invocation and the table\<close>

text \<open>
  C10. Invocation never mutates the method table: the registered methods and the default
  slot are the same after any invocation as before it.

  The invocation path holds two reads of \<^verbatim>\<open>methods\<close> and no write, and an invocation leaves
  the table alone as long as the method it resolves is not the multimethod's own
  registration function (\<open>invoke_leaves_table_without_registration\<close>). The registration
  function can be resolved, though. A multimethod is a function and type-checks as one
  of its own methods; after \<^verbatim>\<open>mm.method("__proto__", mm)\<close> the table inherits the property
  \<^verbatim>\<open>method\<close> of \<^verbatim>\<open>mm\<close>. The call \<^verbatim>\<open>mm("method")\<close> then reads \<^verbatim>\<open>methods["method"]\<close>, finds the
  registration function and calls it at line 58 with the argument list \<^verbatim>\<open>("method")\<close>; line
  61 assigns \<^verbatim>\<open>methods["method"] = undefined\<close>, which creates an own property, and the call
  returns the multimethod. The table has changed: the same call made again finds the own
  property, which is nullish, and throws \<^verbatim>\<open>No method defined for dispatch method\<close>.
\<close>

theorem invocation_registers:
  "method_mm (multimethod echo_dispatchFn None) ''__proto__'' echo_itself
     = Inr \<lparr>dispatchFn = echo_dispatchFn,
            methods = \<lparr>own = Map.empty, prototype = FunctionProto echo_itself\<rparr>\<rparr>
   \<and> invoke \<lparr>dispatchFn = echo_dispatchFn,
              methods = \<lparr>own = Map.empty, prototype = FunctionProto echo_itself\<rparr>\<rparr>
        ''method''
     = (ReturnedMultimethod,
        \<lparr>dispatchFn = echo_dispatchFn,
         methods = \<lparr>own = [StringKey ''method'' \<mapsto> Undefined],
                    prototype = FunctionProto echo_itself\<rparr>\<rparr>)
   \<and> invoke \<lparr>dispatchFn = echo_dispatchFn,
              methods = \<lparr>own = [StringKey ''method'' \<mapsto> Undefined],
                         prototype = FunctionProto echo_itself\<rparr>\<rparr>
        ''method''
     = (Raised (Error ''No method defined for dispatch method''),
        \<lparr>dispatchFn = echo_dispatchFn,
         methods = \<lparr>own = [StringKey ''method'' \<mapsto> Undefined],
                    prototype = FunctionProto echo_itself\<rparr>\<rparr>)"
  by (simp add: multimethod_def method_mm_def registration_def OrdinarySet_def invoke_def
      OrdinaryGet_def echo_dispatchFn_def echo_itself_def Object_prototype_functions_def)

end
